theory Spec2Isabelle
  imports Main "HOL-Library.Sublist"
begin

section \<open>Errors and character classes\<close>

text \<open>
  The C++ code signals failure by throwing. Every throw of the source is a value of
  \<open>exn\<close>: \<open>RuntimeError\<close> and \<open>LogicError\<close> carry the message of
  \<open>std::runtime_error\<close> and \<open>std::logic_error\<close>; \<open>OutOfRange\<close> is the
  \<open>std::out_of_range\<close> that \<open>std::string::substr\<close> throws when its start position
  lies behind the end of the string (its message is implementation defined);
  \<open>RangeError\<close> is the failure of a typed lookup in the value store.
\<close>

datatype exn = RuntimeError string | LogicError string | OutOfRange | RangeError string

text \<open>
  Strings are byte lists. The character classes are those of the "C" locale, in which the
  program runs unless a caller changes it: only ASCII letters, digits and blanks qualify.
\<close>

definition isupper :: "char \<Rightarrow> bool" where
  "isupper c = (65 \<le> (of_char c :: nat) \<and> (of_char c :: nat) \<le> 90)"

definition islower :: "char \<Rightarrow> bool" where
  "islower c = (97 \<le> (of_char c :: nat) \<and> (of_char c :: nat) \<le> 122)"

definition isdigit :: "char \<Rightarrow> bool" where
  "isdigit c = (48 \<le> (of_char c :: nat) \<and> (of_char c :: nat) \<le> 57)"

definition isalpha :: "char \<Rightarrow> bool" where
  "isalpha c = (isupper c \<or> islower c)"

definition isalnum :: "char \<Rightarrow> bool" where
  "isalnum c = (isalpha c \<or> isdigit c)"

definition isspace :: "char \<Rightarrow> bool" where
  "isspace c = ((of_char c :: nat) = 32 \<or> (9 \<le> (of_char c :: nat) \<and> (of_char c :: nat) \<le> 13))"

definition toupper :: "char \<Rightarrow> char" where
  "toupper c = (if islower c then char_of ((of_char c :: nat) - 32) else c)"

definition tolower :: "char \<Rightarrow> char" where
  "tolower c = (if isupper c then char_of ((of_char c :: nat) + 32) else c)"

text \<open>
  \<open>s.substr(pos)\<close> and \<open>s.substr(pos, n)\<close>: both throw \<open>std::out_of_range\<close> when
  \<open>pos > s.size()\<close>; otherwise the count is cut at the end of the string.
\<close>

definition substr :: "string \<Rightarrow> nat \<Rightarrow> exn + string" where
  "substr s pos = (if length s < pos then Inl OutOfRange else Inr (drop pos s))"

definition substr2 :: "string \<Rightarrow> nat \<Rightarrow> nat \<Rightarrow> exn + string" where
  "substr2 s pos n = (if length s < pos then Inl OutOfRange else Inr (take n (drop pos s)))"

text \<open>
  \<open>s[k]\<close> of a \<open>std::string\<close> or of a C string, for \<open>k\<close> up to the length: the
  character at \<open>k\<close>, and the terminating NUL at the length itself.
\<close>

definition charAt :: "string \<Rightarrow> nat \<Rightarrow> char" where
  "charAt s k = (if k < length s then s ! k else CHR 0x00)"

text \<open>
  The same two calls with \<open>int\<close> arguments, as \<open>breakLines\<close> makes them: the
  conversion to \<open>size_t\<close> turns a negative number into one larger than any string.
\<close>

definition substrI :: "string \<Rightarrow> int \<Rightarrow> exn + string" where
  "substrI s pos = (if pos < 0 then Inl OutOfRange else substr s (nat pos))"

definition substrI2 :: "string \<Rightarrow> int \<Rightarrow> int \<Rightarrow> exn + string" where
  "substrI2 s pos n =
     (if pos < 0 then Inl OutOfRange
      else if n < 0 then substr s (nat pos)
      else substr2 s (nat pos) (nat n))"

text \<open>\<open>std::to_string\<close> of an unsigned number, and \<open>operator<<\<close> of a positive \<open>int\<close>.\<close>

fun to_string :: "nat \<Rightarrow> string" where
  "to_string n =
     (if n < 10 then [char_of (48 + n)]
      else to_string (n div 10) @ [char_of (48 + n mod 10)])"

declare to_string.simps [simp del]

section \<open>Name transformer\<close>

text \<open>
  \<open>transformKey\<close> checks the first character, then walks over the rest with an index
  that jumps over the character behind a hyphen. \<open>transformKeyRest\<close> is that loop, on
  the characters from index 1 on; \<open>s\<close> is the whole key, named in the messages.
\<close>

fun transformKeyRest :: "string \<Rightarrow> string \<Rightarrow> string \<Rightarrow> exn + string" where
  "transformKeyRest errorPrefix s [] = Inr []"
| "transformKeyRest errorPrefix s (c # cs) =
     (if c = CHR ''-'' then
        (case cs of
           [] \<Rightarrow> Inl (RuntimeError (errorPrefix @ ''Invalid parameter name '' @ [CHR 0x27] @ s @ [CHR 0x27]))
         | d # ds \<Rightarrow>
             if \<not> isalpha d
             then Inl (RuntimeError (errorPrefix @ ''Invalid parameter name '' @ [CHR 0x27] @ s @ [CHR 0x27]))
             else (case transformKeyRest errorPrefix s ds of
                     Inl e \<Rightarrow> Inl e
                   | Inr r \<Rightarrow> Inr (toupper d # r)))
      else if \<not> isalnum c
      then Inl (RuntimeError (errorPrefix @ ''Invalid parameter name '' @ [CHR 0x27] @ s @ [CHR 0x27]))
      else (case transformKeyRest errorPrefix s cs of
              Inl e \<Rightarrow> Inl e
            | Inr r \<Rightarrow> Inr (c # r)))"

definition transformKey :: "string \<Rightarrow> bool \<Rightarrow> string \<Rightarrow> exn + string" where
  "transformKey s capitalizeFirstLetter errorPrefix =
     (case s of
        [] \<Rightarrow> Inl (RuntimeError (errorPrefix @ ''Empty parameter names are invalid''))
      | c # cs \<Rightarrow>
          if \<not> isalpha c
          then Inl (RuntimeError (errorPrefix @ ''Parameter name '' @ [CHR 0x27] @ s @ [CHR 0x27]
                      @ '' is invalid: First character must be a letter''))
          else (case transformKeyRest errorPrefix s cs of
                  Inl e \<Rightarrow> Inl e
                | Inr r \<Rightarrow> Inr ((if capitalizeFirstLetter then toupper c else c) # r)))"

text \<open>
  The loop of \<open>printParamUsage\<close> that turns the CamelCase name into the command line
  name: it starts from \<open>"-"\<close>, puts a hyphen before every upper-case letter (the first
  one included) and lower-cases every character.
\<close>

fun cmdLineNameLoop :: "string \<Rightarrow> string" where
  "cmdLineNameLoop [] = []"
| "cmdLineNameLoop (c # cs) =
     (if isupper c then CHR ''-'' # tolower c # cmdLineNameLoop cs
      else tolower c # cmdLineNameLoop cs)"

definition cmdLineName :: "string \<Rightarrow> string" where
  "cmdLineName camelCaseName = CHR ''-'' # cmdLineNameLoop camelCaseName"

text \<open>
  The kebab-case form in the words of the specification: a hyphen before each internal
  upper-case letter, everything lower-cased. It is the text behind the two leading
  hyphens of \<open>cmdLineName\<close> when the name starts with an upper-case letter.
\<close>

definition kebab_spec :: "string \<Rightarrow> string" where
  "kebab_spec n = (case n of [] \<Rightarrow> [] | c # cs \<Rightarrow> tolower c # cmdLineNameLoop cs)"

text \<open>A valid canonical name: letters and digits only, starting with a letter.\<close>

definition validName :: "string \<Rightarrow> bool" where
  "validName n = (case n of [] \<Rightarrow> False | c # cs \<Rightarrow> isalpha c \<and> list_all isalnum cs)"

section \<open>Key/value lexer\<close>

text \<open>
  The loop of \<open>parseQuotedValue\<close>, from index \<open>i\<close> with the text collected so far.
  It returns the index at which it stopped: that of the closing quote after a
  \<open>break\<close>, the size of the string when the loop condition failed.
\<close>

function parseQuotedLoop :: "string \<Rightarrow> string \<Rightarrow> nat \<Rightarrow> string \<Rightarrow> exn + (nat \<times> string)" where
  "parseQuotedLoop errorPrefix s i result =
     (if i < length s then
        (if s ! i = CHR 0x5C then
           (if length s \<le> i + 1
            then Inl (RuntimeError (errorPrefix @ ''Unexpected end of quoted string''))
            else if s ! (i + 1) = CHR ''n'' then parseQuotedLoop errorPrefix s (i + 2) (result @ [CHR 0x0A])
            else if s ! (i + 1) = CHR ''r'' then parseQuotedLoop errorPrefix s (i + 2) (result @ [CHR 0x0D])
            else if s ! (i + 1) = CHR ''t'' then parseQuotedLoop errorPrefix s (i + 2) (result @ [CHR 0x09])
            else if s ! (i + 1) = CHR 0x22 then parseQuotedLoop errorPrefix s (i + 2) (result @ [CHR 0x22])
            else if s ! (i + 1) = CHR 0x5C then parseQuotedLoop errorPrefix s (i + 2) (result @ [CHR 0x5C])
            else Inl (RuntimeError (errorPrefix @ ''Unknown escape character ''
                        @ [CHR 0x27, CHR 0x5C, s ! (i + 1), CHR 0x27])))
         else if s ! i = CHR 0x22 then Inr (i, result)
         else parseQuotedLoop errorPrefix s (i + 1) (result @ [s ! i]))
      else Inr (i, result))"
  by pat_completeness auto
termination
  by (relation "measure (\<lambda>(errorPrefix, s, i, result). length s - i)") auto

declare parseQuotedLoop.simps [simp del]

text \<open>
  \<open>parseQuotedValue\<close> returns the value and leaves the text behind the closing quote in
  its reference argument; the model returns both. The final \<open>s.substr(i+1)\<close> is taken
  whichever way the loop ended.
\<close>

definition parseQuotedValue :: "string \<Rightarrow> string \<Rightarrow> exn + (string \<times> string)" where
  "parseQuotedValue s errorPrefix =
     (if s = [] \<or> charAt s 0 \<noteq> CHR 0x22
      then Inl (RuntimeError (errorPrefix @ ''Expected quoted string''))
      else (case parseQuotedLoop errorPrefix s 1 [] of
              Inl e \<Rightarrow> Inl e
            | Inr (i, result) \<Rightarrow>
                (case substr s (i + 1) of
                   Inl e \<Rightarrow> Inl e
                 | Inr s' \<Rightarrow> Inr (result, s'))))"

text \<open>
  The three scanning helpers stop at the first character of a class; their
  \<open>substr\<close> calls start inside the string and cannot throw.
\<close>

definition parseUnquotedValue :: "string \<Rightarrow> string \<times> string" where
  "parseUnquotedValue s =
     (takeWhile (\<lambda>c. \<not> isspace c) s, dropWhile (\<lambda>c. \<not> isspace c) s)"

definition removeLeadingSpace :: "string \<Rightarrow> string" where
  "removeLeadingSpace s = dropWhile isspace s"

definition parseKey :: "string \<Rightarrow> string \<times> string" where
  "parseKey s =
     (takeWhile (\<lambda>c. \<not> (isspace c \<or> c = CHR ''='')) s,
      dropWhile (\<lambda>c. \<not> (isspace c \<or> c = CHR ''='')) s)"

section \<open>Parameters, registry entries and the registry\<close>

text \<open>
  A parameter is a C++ struct with a static member \<open>value\<close>, the compiled-in default,
  whose type decides how the parameter is read. The model has one constructor per way
  \<open>Get\<close> treats the type: strings, booleans, and every other (numeric) type, whose
  values are left abstract. \<open>className\<close> is what \<open>Dune::className<ParamType>()\<close>
  returns for the parameter's type.
\<close>

datatype 'n pvalue = VString string | VBool bool | VNum 'n

record 'n Param =
  name :: string
  className :: string
  val :: "'n pvalue"

record ParamInfo =
  paramName :: string
  paramTypeName :: string
  typeTagName :: string
  usageString :: string
  defaultValue :: string
  isHidden :: bool

definition ParamInfo_eq :: "ParamInfo \<Rightarrow> ParamInfo \<Rightarrow> bool" where
  "ParamInfo_eq this other =
     (paramName other = paramName this
      \<and> paramTypeName other = paramTypeName this
      \<and> typeTagName other = typeTagName this
      \<and> usageString other = usageString this)"

text \<open>
  The functions of the C++ standard library and of Dune's parameter tree that convert
  between values and text are not part of this repository; the model takes them as
  parameters. \<open>put_num\<close> is \<open>operator<<\<close> on a numeric value. \<open>from_chars\<close> reads a
  numeric default from its text; its second argument is the value the variable held
  before (\<open>Param::value\<close>), which \<open>std::from_chars\<close> leaves in place when it reads
  nothing. \<open>tree_string\<close>, \<open>tree_bool\<close> and \<open>tree_num\<close> are the conversions of the
  typed lookup \<open>ParameterTree::get<T>\<close>, which throw when the text does not convert.
\<close>

record 'n Lib =
  put_num :: "'n \<Rightarrow> string"
  from_chars :: "string \<Rightarrow> 'n \<Rightarrow> 'n"
  tree_string :: "string \<Rightarrow> exn + string"
  tree_bool :: "string \<Rightarrow> exn + bool"
  tree_num :: "string \<Rightarrow> exn + 'n"

text \<open>\<open>oss << value\<close>: a string as it is, a boolean as \<open>1\<close> or \<open>0\<close>.\<close>

definition putValue :: "'n Lib \<Rightarrow> 'n pvalue \<Rightarrow> string" where
  "putValue L v =
     (case v of
        VString s \<Rightarrow> s
      | VBool b \<Rightarrow> (if b then ''1'' else ''0'')
      | VNum n \<Rightarrow> put_num L n)"

text \<open>
  Modelled from the spec: the value store (\<open>Dune::ParameterTree\<close>), whose code is not in
  this repository. The specification uses it as an associative store from keys to the
  supplied text, with a test for a key, an assignment and a typed lookup that falls back
  to a given default when the key is absent. The model is a map from keys to text.
\<close>

type_synonym ParameterTree = "string \<rightharpoonup> string"

text \<open>
  Modelled from the spec: \<open>ParameterTree::hasKey\<close>, "whether the canonical key exists"
  in the value store.
\<close>

definition hasKey :: "ParameterTree \<Rightarrow> string \<Rightarrow> bool" where
  "hasKey t key = (t key \<noteq> None)"

text \<open>
  Modelled from the spec: \<open>ParameterTree::get<T>(key, defaultValue)\<close>, the "typed lookup
  under the canonical key, falling back to the just-computed default when the key is
  absent"; "a malformed stored value is a reportable parse failure". The type \<open>T\<close> is
  that of the default handed in.
\<close>

definition treeGet :: "'n Lib \<Rightarrow> ParameterTree \<Rightarrow> string \<Rightarrow> 'n pvalue \<Rightarrow> exn + 'n pvalue" where
  "treeGet L t key dflt =
     (case t key of
        None \<Rightarrow> Inr dflt
      | Some s \<Rightarrow>
          (case dflt of
             VString _ \<Rightarrow> (case tree_string L s of Inl e \<Rightarrow> Inl e | Inr x \<Rightarrow> Inr (VString x))
           | VBool _ \<Rightarrow> (case tree_bool L s of Inl e \<Rightarrow> Inl e | Inr x \<Rightarrow> Inr (VBool x))
           | VNum _ \<Rightarrow> (case tree_num L s of Inl e \<Rightarrow> Inl e | Inr x \<Rightarrow> Inr (VNum x))))"

text \<open>
  \<open>MetaData::Storage_\<close>, the process-wide state. A finalizer is an object whose
  \<open>retrieve\<close> calls \<open>Get<Param>(true)\<close>; the list holds the parameters themselves.
\<close>

record 'n MetaData =
  tree :: ParameterTree
  registry :: "string \<rightharpoonup> ParamInfo"
  finalizers :: "'n Param list"
  registrationOpen :: bool

definition clear :: "'n MetaData" where
  "clear = \<lparr>tree = Map.empty, registry = Map.empty, finalizers = [], registrationOpen = True\<rparr>"

definition reset :: "'n MetaData \<Rightarrow> 'n MetaData" where
  "reset st = clear"

text \<open>
  The entry that \<open>std::map::operator[]\<close> creates for a key it does not hold: a
  value-initialised \<open>ParamInfo\<close>, all strings empty.
\<close>

definition emptyParamInfo :: ParamInfo where
  "emptyParamInfo =
     \<lparr>paramName = [], paramTypeName = [], typeTagName = [], usageString = [],
      defaultValue = [], isHidden = False\<rparr>"

section \<open>Registration and resolution\<close>

text \<open>
  Every operation takes the state and returns its outcome together with the state it
  leaves behind, which after a throw is the state at the throw.
\<close>

definition Register :: "'n Lib \<Rightarrow> 'n Param \<Rightarrow> string \<Rightarrow> 'n MetaData \<Rightarrow> (exn + unit) \<times> 'n MetaData" where
  "Register L p usage st =
     (if \<not> registrationOpen st
      then (Inl (LogicError (''Parameter registration was already closed before the parameter ''
                   @ [CHR 0x27] @ name p @ [CHR 0x27] @ '' was registered.'')), st)
      else
        let st1 = st\<lparr>finalizers := finalizers st @ [p]\<rparr>;
            paramInfo = \<lparr>paramName = name p, paramTypeName = className p, typeTagName = [],
                         usageString = usage, defaultValue = putValue L (val p),
                         isHidden = False\<rparr>
        in (case registry st1 (name p) of
              Some registered \<Rightarrow>
                if ParamInfo_eq registered paramInfo then (Inr (), st1)
                else (Inl (LogicError (''Parameter '' @ name p
                             @ '' registered twice with non-matching characteristics.'')), st1)
            | None \<Rightarrow> (Inr (), st1\<lparr>registry := (registry st1)(name p \<mapsto> paramInfo)\<rparr>)))"

definition Hide :: "'n Param \<Rightarrow> 'n MetaData \<Rightarrow> (exn + unit) \<times> 'n MetaData" where
  "Hide p st =
     (if \<not> registrationOpen st
      then (Inl (LogicError (''Parameter '' @ [CHR 0x27] @ name p @ [CHR 0x27]
                   @ '' declared as hidden when parameter registration was already closed.'')), st)
      else (case registry st (name p) of
              None \<Rightarrow> (Inl (LogicError (''Tried to declare unknown parameter '' @ [CHR 0x27]
                           @ name p @ [CHR 0x27] @ '' hidden.'')), st)
            | Some paramInfo \<Rightarrow>
                (Inr (), st\<lparr>registry := (registry st)(name p \<mapsto> paramInfo\<lparr>isHidden := True\<rparr>)\<rparr>)))"

text \<open>
  \<open>Get\<close> reads the default text through \<open>mutableRegistry()[paramName]\<close>, which
  inserts an empty entry when the name has none.
\<close>

definition Get :: "'n Lib \<Rightarrow> 'n Param \<Rightarrow> bool \<Rightarrow> 'n MetaData \<Rightarrow> (exn + 'n pvalue) \<times> 'n MetaData" where
  "Get L p errorIfNotRegistered st =
     (if errorIfNotRegistered \<and> registrationOpen st
      then (Inl (RuntimeError ''Parameters can only retrieved after _all_ of them have been registered.''), st)
      else if errorIfNotRegistered \<and> registry st (name p) = None
      then (Inl (RuntimeError (''Accessing parameter '' @ name p
                   @ '' without prior registration is not allowed.'')), st)
      else
        let (defVal, st1) =
              (case registry st (name p) of
                 Some paramInfo \<Rightarrow> (defaultValue paramInfo, st)
               | None \<Rightarrow> (defaultValue emptyParamInfo,
                           st\<lparr>registry := (registry st)(name p \<mapsto> emptyParamInfo)\<rparr>));
            dflt = (case val p of
                      VString _ \<Rightarrow> VString defVal
                    | VBool _ \<Rightarrow> VBool (defVal = ''1'')
                    | VNum n \<Rightarrow> VNum (from_chars L defVal n))
        in (treeGet L (tree st1) (name p) dflt, st1))"

definition SetDefault :: "'n Lib \<Rightarrow> 'n Param \<Rightarrow> 'n pvalue \<Rightarrow> 'n MetaData \<Rightarrow> (exn + unit) \<times> 'n MetaData" where
  "SetDefault L p new_value st =
     (case registry st (name p) of
        None \<Rightarrow> (Inl (RuntimeError (''Accessing parameter '' @ name p
                     @ '' without prior registration is not allowed.'')), st)
      | Some paramInfo \<Rightarrow>
          (Inr (), st\<lparr>registry := (registry st)(name p \<mapsto>
                         paramInfo\<lparr>defaultValue := putValue L new_value\<rparr>)\<rparr>))"

definition IsSet :: "'n Param \<Rightarrow> bool \<Rightarrow> 'n MetaData \<Rightarrow> (exn + bool) \<times> 'n MetaData" where
  "IsSet p errorIfNotRegistered st =
     (if errorIfNotRegistered \<and> registrationOpen st
      then (Inl (RuntimeError ''Parameters can only checked after _all_ of them have been registered.''), st)
      else if errorIfNotRegistered \<and> registry st (name p) = None
      then (Inl (RuntimeError (''Accessing parameter '' @ name p
                   @ '' without prior registration is not allowed.'')), st)
      else (Inr (hasKey (tree st) (name p)), st))"

text \<open>
  The loop of \<open>endRegistration\<close> over the finalizers: each \<open>retrieve\<close> is
  \<open>Get<Param>(true)\<close> with its value dropped; the first throw ends the loop.
\<close>

fun runFinalizers :: "'n Lib \<Rightarrow> 'n Param list \<Rightarrow> 'n MetaData \<Rightarrow> (exn + unit) \<times> 'n MetaData" where
  "runFinalizers L [] st = (Inr (), st)"
| "runFinalizers L (p # ps) st =
     (case Get L p True st of
        (Inl e, st') \<Rightarrow> (Inl e, st')
      | (Inr v, st') \<Rightarrow> runFinalizers L ps st')"

definition endRegistration :: "'n Lib \<Rightarrow> 'n MetaData \<Rightarrow> (exn + unit) \<times> 'n MetaData" where
  "endRegistration L st =
     (if \<not> registrationOpen st
      then (Inl (LogicError ''Parameter registration was already closed. It is only possible to close it once.''), st)
      else
        let st1 = st\<lparr>registrationOpen := False\<rparr>
        in (case runFinalizers L (finalizers st1) st1 of
              (Inl e, st2) \<Rightarrow> (Inl e, st2)
            | (Inr u, st2) \<Rightarrow> (Inr (), st2\<lparr>finalizers := []\<rparr>)))"

section \<open>Source ingestion\<close>

text \<open>
  \<open>parseParameterFile\<close> reads the file with \<open>std::getline\<close> until the stream fails;
  \<open>lines\<close> are the lines these calls return, in order. The three statements
  \<open>std::runtime_error(errorPrefix+"Syntax error, expecting 'key=value'");\<close> of the
  source build an exception object and drop it: they throw nothing and change nothing, so
  the model has no branch for them. What remains of them is that \<open>curLine.substr(1)\<close>
  runs on an empty rest of the line, too.
\<close>

fun parseParameterLines :: "string \<Rightarrow> bool \<Rightarrow> string list \<Rightarrow> nat \<Rightarrow> string set \<Rightarrow> 'n MetaData
    \<Rightarrow> (exn + unit) \<times> 'n MetaData" where
  "parseParameterLines fileName overwrite [] curLineNum seenKeys st = (Inr (), st)"
| "parseParameterLines fileName overwrite (line # rest) curLineNum seenKeys st =
     (let curLineNum1 = curLineNum + 1;
          errorPrefix = fileName @ '':'' @ to_string curLineNum1 @ '': '';
          curLine = removeLeadingSpace line
      in if curLine = [] \<or> charAt curLine 0 = CHR ''#'' \<or> charAt curLine 0 = CHR '';''
         then parseParameterLines fileName overwrite rest curLineNum1 seenKeys st
         else
           (case transformKey (fst (parseKey curLine)) True errorPrefix of
              Inl e \<Rightarrow> (Inl e, st)
            | Inr canonicalKey \<Rightarrow>
                if canonicalKey \<in> seenKeys
                then (Inl (RuntimeError (errorPrefix @ ''Parameter '' @ [CHR 0x27] @ canonicalKey
                             @ [CHR 0x27] @ '' seen multiple times in the same file'')), st)
                else
                  (case substr (removeLeadingSpace (snd (parseKey curLine))) 1 of
                     Inl e \<Rightarrow> (Inl e, st)
                   | Inr curLine1 \<Rightarrow>
                       (case (if charAt (removeLeadingSpace curLine1) 0 = CHR 0x22
                              then parseQuotedValue (removeLeadingSpace curLine1) errorPrefix
                              else Inr (parseUnquotedValue (removeLeadingSpace curLine1))) of
                          Inl e \<Rightarrow> (Inl e, st)
                        | Inr (v, curLine2) \<Rightarrow>
                            parseParameterLines fileName overwrite rest curLineNum1
                              (insert canonicalKey seenKeys)
                              (if overwrite \<or> \<not> hasKey (tree st) canonicalKey
                               then st\<lparr>tree := (tree st)(canonicalKey \<mapsto> v)\<rparr>
                               else st)))))"

definition parseParameterFile :: "string \<Rightarrow> bool \<Rightarrow> string list \<Rightarrow> 'n MetaData \<Rightarrow> (exn + unit) \<times> 'n MetaData" where
  "parseParameterFile fileName overwrite lines st =
     parseParameterLines fileName overwrite lines 0 {} st"

text \<open>
  The positional-argument callback gets a function that assigns to the value store, the
  set of keys seen, an error message to fill in, the arguments, the index of the
  current one and the number of positional arguments before it; it returns how many
  arguments it has handled. In the model it returns that number, the message, the
  assignments it made (in order) and the set of keys it leaves.
\<close>

type_synonym PositionalArgumentCallback =
  "string set \<Rightarrow> string list \<Rightarrow> nat \<Rightarrow> nat \<Rightarrow> int \<times> string \<times> (string \<times> string) list \<times> string set"

text \<open>\<open>noPositionalParameters_\<close>, the default callback: it rejects the argument.\<close>

definition noPositionalParameters :: PositionalArgumentCallback where
  "noPositionalParameters seenKeys argv paramIdx posIdx =
     (0, ''Illegal parameter '' @ [CHR 0x22] @ argv ! paramIdx @ [CHR 0x22] @ ''.'', [], seenKeys)"

text \<open>
  One pass through the body of the loop over the arguments either returns from
  \<open>parseCommandLineOptions\<close> or goes on with a new index, set of keys, number of
  positional arguments and state. What the code prints (the usage text that goes with a
  message when a help preamble is given) is not part of the model.
\<close>

datatype 'n step =
  Return "exn + string" "'n MetaData"
| Continue nat "string set" nat "'n MetaData"

definition positionalArg :: "PositionalArgumentCallback \<Rightarrow> string list \<Rightarrow> nat \<Rightarrow> string set \<Rightarrow> nat
    \<Rightarrow> 'n MetaData \<Rightarrow> 'n step" where
  "positionalArg posArgCallback argv i seenKeys numPositionalParams st =
     (case posArgCallback seenKeys argv i numPositionalParams of
        (numHandled, errorMsg, assignments, seenKeys1) \<Rightarrow>
          if numHandled < 1
          then Return (Inr errorMsg)
                 (st\<lparr>tree := foldl (\<lambda>t (k, v). t(k \<mapsto> v)) (tree st) assignments\<rparr>)
          else Continue (i + nat numHandled) seenKeys1 (numPositionalParams + 1)
                 (st\<lparr>tree := foldl (\<lambda>t (k, v). t(k \<mapsto> v)) (tree st) assignments\<rparr>))"

definition namedArg :: "string list \<Rightarrow> nat \<Rightarrow> string set \<Rightarrow> nat \<Rightarrow> 'n MetaData \<Rightarrow> 'n step" where
  "namedArg argv i seenKeys numPositionalParams st =
     (if charAt (argv ! i) 2 = CHR 0x00 \<or> \<not> isalpha (charAt (argv ! i) 2)
      then Return (Inr (''Parameter name of argument '' @ to_string i @ '' ('' @ [CHR 0x27]
                     @ argv ! i @ [CHR 0x27] @ '') ''
                     @ ''is invalid because it does not start with a letter.'')) st
      else
        (case transformKey (fst (parseKey (drop 2 (argv ! i)))) True [] of
           Inl e \<Rightarrow> Return (Inl e) st
         | Inr paramName' \<Rightarrow>
             if paramName' \<in> seenKeys
             then Return (Inr (''Parameter '' @ [CHR 0x27] @ paramName' @ [CHR 0x27]
                            @ '' specified multiple times as a command line parameter'')) st
             else if snd (parseKey (drop 2 (argv ! i))) = []
                     \<or> charAt (snd (parseKey (drop 2 (argv ! i)))) 0 \<noteq> CHR ''=''
             then Return (Inr (''Parameter '' @ [CHR 0x27] @ paramName' @ [CHR 0x27]
                            @ '' is missing a value. '' @ '' Please use '' @ argv ! i
                            @ ''=value.'')) st
             else (case substr (snd (parseKey (drop 2 (argv ! i)))) 1 of
                     Inl e \<Rightarrow> Return (Inl e) st
                   | Inr paramValue \<Rightarrow>
                       Continue (i + 1) (insert paramName' seenKeys) numPositionalParams
                         (st\<lparr>tree := (tree st)(paramName' \<mapsto> paramValue)\<rparr>))))"

definition argStep :: "PositionalArgumentCallback \<Rightarrow> string list \<Rightarrow> nat \<Rightarrow> string set \<Rightarrow> nat
    \<Rightarrow> 'n MetaData \<Rightarrow> 'n step" where
  "argStep posArgCallback argv i seenKeys numPositionalParams st =
     (if length (argv ! i) < 4
         \<or> charAt (argv ! i) 0 \<noteq> CHR ''-''
         \<or> charAt (argv ! i) 1 \<noteq> CHR ''-''
      then positionalArg posArgCallback argv i seenKeys numPositionalParams st
      else namedArg argv i seenKeys numPositionalParams st)"

function parseArgs :: "PositionalArgumentCallback \<Rightarrow> string list \<Rightarrow> nat \<Rightarrow> string set \<Rightarrow> nat
    \<Rightarrow> 'n MetaData \<Rightarrow> (exn + string) \<times> 'n MetaData" where
  "parseArgs posArgCallback argv i seenKeys numPositionalParams st =
     (if i < length argv then
        (case argStep posArgCallback argv i seenKeys numPositionalParams st of
           Return r st' \<Rightarrow> (r, st')
         | Continue i' seenKeys' numPositionalParams' st' \<Rightarrow>
             parseArgs posArgCallback argv i' seenKeys' numPositionalParams' st')
      else (Inr [], st))"
  by pat_completeness auto
termination
  by (relation "measure (\<lambda>(posArgCallback, argv, i, seenKeys, n, st). length argv - i)")
     (auto simp add: argStep_def positionalArg_def namedArg_def
        split: if_splits prod.splits sum.splits)

declare parseArgs.simps [simp del]

definition parseCommandLineOptions :: "string list \<Rightarrow> string \<Rightarrow> PositionalArgumentCallback \<Rightarrow> 'n MetaData
    \<Rightarrow> (exn + string) \<times> 'n MetaData" where
  "parseCommandLineOptions argv helpPreamble posArgCallback st =
     (if helpPreamble \<noteq> []
         \<and> list_ex (\<lambda>a. a = ''-h'' \<or> a = ''--help'' \<or> a = ''--help-all'') (drop 1 argv)
      then (Inr ''Help called'', st)
      else parseArgs posArgCallback argv 1 {} 0 st)"

section \<open>Line wrapping\<close>

text \<open>
  The loop of \<open>breakLines\<close>. The arguments are the variables at the loop test; each
  recursive call carries the \<open>++inPos, ++ttyPos\<close> of the loop header, also after the
  \<open>continue\<close> of the newline branch. The \<open>int\<close> variables are integers without a
  bound: for a text of fewer than \<open>2^31\<close> characters and widths below that, none of them
  leaves the range of \<open>int\<close>. Every new position is an old one plus one or two, so
  the source reads \<open>msg[inPos]\<close> at a non-negative index below the size.
\<close>

function breakLinesLoop :: "string \<Rightarrow> int \<Rightarrow> int \<Rightarrow> string \<Rightarrow> int \<Rightarrow> int \<Rightarrow> int \<Rightarrow> int \<Rightarrow> exn + string" where
  "breakLinesLoop msg indentWidth maxWidth result startInPos inPos lastBreakPos ttyPos =
     (if inPos < int (length msg) then
        (if charAt msg (nat inPos) = CHR 0x0A then
           (case substrI2 msg startInPos (inPos - startInPos + 1) of
              Inl e \<Rightarrow> Inl e
            | Inr piece \<Rightarrow>
                breakLinesLoop msg indentWidth maxWidth (result @ piece)
                  (inPos + 1) (inPos + 1) (inPos + 1 + 1) 0)
         else if ttyPos \<ge> maxWidth then
           (if (if isspace (charAt msg (nat inPos)) then inPos else lastBreakPos) > startInPos then
              (case substrI2 msg startInPos
                      ((if isspace (charAt msg (nat inPos)) then inPos else lastBreakPos) - startInPos) of
                 Inl e \<Rightarrow> Inl e
               | Inr piece \<Rightarrow>
                   breakLinesLoop msg indentWidth maxWidth
                     (result @ piece @ [CHR 0x0A] @ replicate (nat indentWidth) (CHR '' ''))
                     ((if isspace (charAt msg (nat inPos)) then inPos else lastBreakPos) + 1)
                     ((if isspace (charAt msg (nat inPos)) then inPos else lastBreakPos) + 1 + 1)
                     ((if isspace (charAt msg (nat inPos)) then inPos else lastBreakPos) + 1)
                     (indentWidth + 1))
            else
              (case substrI2 msg startInPos (inPos - startInPos) of
                 Inl e \<Rightarrow> Inl e
               | Inr piece \<Rightarrow>
                   breakLinesLoop msg indentWidth maxWidth
                     (result @ piece @ [CHR 0x0A] @ replicate (nat indentWidth) (CHR '' ''))
                     inPos (inPos + 1) inPos (indentWidth + 1)))
         else
           breakLinesLoop msg indentWidth maxWidth result startInPos (inPos + 1)
             (if isspace (charAt msg (nat inPos)) then inPos else lastBreakPos) (ttyPos + 1))
      else
        (case substrI msg startInPos of
           Inl e \<Rightarrow> Inl e
         | Inr piece \<Rightarrow> Inr (result @ piece)))"
  by pat_completeness auto
termination
  by (relation "measures
        [\<lambda>(msg, indentWidth, maxWidth, result, startInPos, inPos, lastBreakPos, ttyPos).
           if inPos < startInPos then 1 else 0,
         \<lambda>(msg, indentWidth, maxWidth, result, startInPos, inPos, lastBreakPos, ttyPos).
           nat (int (length msg) - startInPos),
         \<lambda>(msg, indentWidth, maxWidth, result, startInPos, inPos, lastBreakPos, ttyPos).
           nat (int (length msg) - inPos)]")
     (auto split: if_splits)

declare breakLinesLoop.simps [simp del]

definition breakLines :: "string \<Rightarrow> int \<Rightarrow> int \<Rightarrow> exn + string" where
  "breakLines msg indentWidth maxWidth = breakLinesLoop msg indentWidth maxWidth [] 0 0 0 0"

section \<open>Auxiliary notions for the statements\<close>

text \<open>
  The error of the first finalizer whose \<open>retrieve\<close> throws in state \<open>st\<close>, if there
  is one. \<open>endRegistration\<close> is described by it below.
\<close>

fun firstError :: "'n Lib \<Rightarrow> 'n Param list \<Rightarrow> 'n MetaData \<Rightarrow> exn option" where
  "firstError L [] st = None"
| "firstError L (p # ps) st =
     (case fst (Get L p True st) of Inl e \<Rightarrow> Some e | Inr v \<Rightarrow> firstError L ps st)"

text \<open>
  An instance of the library functions for a program whose parameters are strings and
  booleans only (the numeric type is \<open>unit\<close>), on which the examples below are
  evaluated: the value store hands a string back as it is and reads a boolean from a few
  spellings.
\<close>

definition exampleLib :: "unit Lib" where
  "exampleLib =
     \<lparr>put_num = (\<lambda>n. []),
      from_chars = (\<lambda>s d. d),
      tree_string = Inr,
      tree_bool = (\<lambda>s. if s = ''true'' \<or> s = ''1'' then Inr True
                         else if s = ''false'' \<or> s = ''0'' then Inr False
                         else Inl (RangeError s)),
      tree_num = (\<lambda>s. Inr ())\<rparr>"

definition paramTitle :: "unit Param" where
  "paramTitle = \<lparr>name = ''Title'', className = ''std::string'', val = VString ''none''\<rparr>"

definition paramVerbose :: "unit Param" where
  "paramVerbose = \<lparr>name = ''Verbose'', className = ''bool'', val = VBool False\<rparr>"

text \<open>A second parameter struct with the name of \<open>paramTitle\<close> and another type.\<close>

definition paramTitleBool :: "unit Param" where
  "paramTitleBool = \<lparr>name = ''Title'', className = ''bool'', val = VBool True\<rparr>"

text \<open>
  The state after both parameters are registered, and the state after registration is
  closed and the command line \<open>prog --title=abc\<close> is read.
\<close>

definition registeredState :: "unit MetaData" where
  "registeredState =
     snd (Register exampleLib paramVerbose ''Be verbose''
            (snd (Register exampleLib paramTitle ''The title'' clear)))"

definition exampleState :: "unit MetaData" where
  "exampleState =
     snd (parseCommandLineOptions [''prog'', ''--title=abc''] [] noPositionalParameters
            (snd (endRegistration exampleLib registeredState)))"

section \<open>The name transformer and the usage name\<close>

lemma toupper_tolower: "isupper c \<Longrightarrow> toupper (tolower c) = c"
  by (simp add: toupper_def tolower_def islower_def isupper_def)

lemma isalpha_tolower: "isupper c \<Longrightarrow> isalpha (tolower c)"
  by (simp add: tolower_def isalpha_def islower_def isupper_def)

lemma tolower_id: "\<not> isupper c \<Longrightarrow> tolower c = c"
  by (simp add: tolower_def)

lemma isalnum_not_hyphen: "isalnum c \<Longrightarrow> c \<noteq> CHR ''-''"
  by (auto simp add: isalnum_def isalpha_def isupper_def islower_def isdigit_def)

lemma transformKeyRest_cmdLineNameLoop:
  "list_all isalnum cs \<Longrightarrow> transformKeyRest errorPrefix s (cmdLineNameLoop cs) = Inr cs"
proof (induction cs)
  case Nil
  then show ?case by simp
next
  case (Cons c cs)
  then have ih: "transformKeyRest errorPrefix s (cmdLineNameLoop cs) = Inr cs" by simp
  show ?case
  proof (cases "isupper c")
    case True
    then show ?thesis
      by (simp add: ih toupper_tolower isalpha_tolower)
  next
    case False
    from Cons.prems have "isalnum c" by simp
    with False show ?thesis
      by (simp add: ih tolower_id isalnum_not_hyphen)
  qed
qed

text \<open>
  Claim C7, as stated, for every valid canonical name: letters and digits only, starting
  with a letter. It fails for a valid name that starts with a lower-case letter:
  \<open>transformKey\<close> with \<open>capitalizeFirst = true\<close> returns a name that starts with an
  upper-case letter. \<open>aB\<close> becomes \<open>a-b\<close> and comes back as \<open>AB\<close>.
\<close>

theorem kebab_roundtrip_lowercase_counterexample:
  "validName ''aB'' \<and> kebab_spec ''aB'' = ''a-b''
   \<and> transformKey (kebab_spec ''aB'') True [] = Inr ''AB''
   \<and> transformKey (kebab_spec ''aB'') True [] \<noteq> Inr ''aB''"
  by code_simp

text \<open>
  Claim C7, amended: for every valid canonical name that starts with an upper-case
  letter, the command line name that \<open>printParamUsage\<close> builds is \<open>--\<close> followed by the
  kebab-case form, and \<open>transformKey\<close> with \<open>capitalizeFirst = true\<close> takes the
  kebab-case form back to the name, whatever the error prefix.
\<close>

theorem kebab_roundtrip:
  assumes "validName n" and "isupper (hd n)"
  shows "cmdLineName n = ''--'' @ kebab_spec n
         \<and> transformKey (kebab_spec n) True errorPrefix = Inr n"
proof (cases n)
  case Nil
  with assms show ?thesis by (simp add: validName_def)
next
  case (Cons c cs)
  with assms have up: "isupper c" and rest: "list_all isalnum cs"
    by (simp_all add: validName_def)
  show ?thesis
    using up rest
    by (simp add: Cons cmdLineName_def kebab_spec_def transformKey_def
        transformKeyRest_cmdLineNameLoop isalpha_tolower toupper_tolower)
qed

text \<open>Claim C7, the amended statement at the name \<open>MyParam2\<close>.\<close>

theorem kebab_roundtrip_witness:
  "validName ''MyParam2'' \<and> isupper (hd ''MyParam2'')
   \<and> cmdLineName ''MyParam2'' = ''--my-param2''
   \<and> transformKey ''my-param2'' True [] = Inr ''MyParam2''"
proof -
  have h1: "validName ''MyParam2''" by code_simp
  have h2: "isupper (hd ''MyParam2'')" by code_simp
  have k: "kebab_spec ''MyParam2'' = ''my-param2''" by code_simp
  from kebab_roundtrip [OF h1 h2, of "[]"] h1 h2 show ?thesis
    by (simp add: k)
qed

section \<open>Quoted values\<close>

lemma parseQuotedLoop_plain:
  "i \<le> length s \<Longrightarrow> \<forall>c\<in>set (drop i s). c \<noteq> CHR 0x22 \<and> c \<noteq> CHR 0x5C
   \<Longrightarrow> parseQuotedLoop errorPrefix s i result = Inr (length s, result @ drop i s)"
proof (induction errorPrefix s i result rule: parseQuotedLoop.induct)
  case (1 errorPrefix s i result)
  show ?case
  proof (cases "i < length s")
    case True
    then have d: "drop i s = s ! i # drop (Suc i) s"
      by (simp add: Cons_nth_drop_Suc)
    with "1.prems" have ne: "s ! i \<noteq> CHR 0x22" "s ! i \<noteq> CHR 0x5C"
      and rest: "\<forall>c\<in>set (drop (i + 1) s). c \<noteq> CHR 0x22 \<and> c \<noteq> CHR 0x5C"
      by auto
    from True have le: "i + 1 \<le> length s" by simp
    have "parseQuotedLoop errorPrefix s (i + 1) (result @ [s ! i])
          = Inr (length s, (result @ [s ! i]) @ drop (i + 1) s)"
      using "1.IH"(6) [OF True ne(2) ne(1) le rest] .
    with True ne d show ?thesis
      by (subst parseQuotedLoop.simps) simp
  next
    case False
    with "1.prems" show ?thesis
      by (subst parseQuotedLoop.simps) simp
  qed
qed

text \<open>
  The parts of claim C5 that hold on the example inputs: the five escape sequences are
  translated and the text behind the closing quote is left over; an unknown escape and a
  backslash at the very end of the input fail with their own messages.
\<close>

lemma parseQuotedValue_example:
  "parseQuotedValue [CHR 0x22, CHR ''a'', CHR 0x5C, CHR ''n'', CHR ''b'', CHR 0x5C, CHR 0x22,
                     CHR ''c'', CHR 0x22] []
   = Inr ([CHR ''a'', CHR 0x0A, CHR ''b'', CHR 0x22, CHR ''c''], [])"
  by code_simp

lemma parseQuotedValue_unknown_escape:
  "parseQuotedValue [CHR 0x22, CHR ''a'', CHR 0x5C, CHR ''x'', CHR 0x22] []
   = Inl (RuntimeError (''Unknown escape character '' @ [CHR 0x27, CHR 0x5C, CHR ''x'', CHR 0x27]))"
  by code_simp

lemma parseQuotedValue_dangling_backslash:
  "parseQuotedValue [CHR 0x22, CHR ''a'', CHR 0x5C] []
   = Inl (RuntimeError ''Unexpected end of quoted string'')"
  by code_simp

text \<open>
  Claim C5 says that an input whose opening quote is never closed fails with an
  unterminated-string error. The code has that error (\<open>Unexpected end of quoted string\<close>)
  only for an input that ends in a backslash. When the text behind the opening quote
  holds neither a quote nor a backslash, the loop runs to the end of the string and the
  \<open>s.substr(i+1)\<close> behind it starts one position past the end: the call ends with the
  \<open>std::out_of_range\<close> of \<open>substr\<close>, which carries neither the error prefix nor a
  word about the quoted string.
\<close>

theorem parseQuotedValue_unterminated:
  assumes "\<forall>c\<in>set body. c \<noteq> CHR 0x22 \<and> c \<noteq> CHR 0x5C"
  shows "parseQuotedValue (CHR 0x22 # body) errorPrefix = Inl OutOfRange"
proof -
  have "parseQuotedLoop errorPrefix (CHR 0x22 # body) 1 []
        = Inr (length (CHR 0x22 # body), [] @ drop 1 (CHR 0x22 # body))"
    using assms by (intro parseQuotedLoop_plain) simp_all
  then show ?thesis
    by (simp add: parseQuotedValue_def charAt_def substr_def)
qed

text \<open>Claim C5, the failing input of the specification's own example: \<open>"unterminated\<close>.\<close>

theorem parseQuotedValue_unterminated_witness:
  "parseQuotedValue (CHR 0x22 # ''unterminated'') ''params.ini:1: '' = Inl OutOfRange"
  using parseQuotedValue_unterminated [of "''unterminated''" "''params.ini:1: ''"]
  by simp

section \<open>The parameter file\<close>

text \<open>
  Claim C2 says that a line which is not of the form \<open>key = value\<close> with an optional
  trailing comment fails with a syntax error, and that nothing of it is stored. The three
  checks of the source build their \<open>std::runtime_error\<close> without throwing it. A file
  with the lines \<open>foo bar\<close> (no equals sign), \<open>baz =\<close> (no value) and
  \<open>qux = 1 extra\<close> (text behind the value) is read without any failure, and stores
  \<open>ar\<close> for \<open>Foo\<close>, the empty text for \<open>Baz\<close> and \<open>1\<close> for \<open>Qux\<close>.
\<close>

theorem parseParameterFile_accepts_malformed:
  "fst (parseParameterFile ''params.ini'' True [''foo bar'', ''baz ='', ''qux = 1 extra'']
          (clear :: unit MetaData)) = Inr ()
   \<and> tree (snd (parseParameterFile ''params.ini'' True [''foo bar'', ''baz ='', ''qux = 1 extra'']
          (clear :: unit MetaData))) ''Foo'' = Some ''ar''
   \<and> tree (snd (parseParameterFile ''params.ini'' True [''foo bar'', ''baz ='', ''qux = 1 extra'']
          (clear :: unit MetaData))) ''Baz'' = Some []
   \<and> tree (snd (parseParameterFile ''params.ini'' True [''foo bar'', ''baz ='', ''qux = 1 extra'']
          (clear :: unit MetaData))) ''Qux'' = Some ''1''"
  by code_simp

text \<open>
  What does work in \<open>parseParameterFile\<close>: the line of the specification's example is
  stored under its canonical key, a key that comes twice in a file fails with file name
  and line number, and a line that ends behind the key fails, with the
  \<open>std::out_of_range\<close> of \<open>curLine.substr(1)\<close>.
\<close>

lemma parseParameterFile_example:
  "fst (parseParameterFile ''params.ini'' True [''# c'', ''  foo-bar = 42   # note'', []]
          (clear :: unit MetaData)) = Inr ()
   \<and> tree (snd (parseParameterFile ''params.ini'' True [''# c'', ''  foo-bar = 42   # note'', []]
          (clear :: unit MetaData))) ''FooBar'' = Some ''42''"
  by code_simp

lemma parseParameterFile_duplicate:
  "fst (parseParameterFile ''params.ini'' True [''a=1'', ''a=2''] (clear :: unit MetaData))
   = Inl (RuntimeError (''params.ini:2: Parameter '' @ [CHR 0x27] @ ''A'' @ [CHR 0x27]
            @ '' seen multiple times in the same file''))"
  by code_simp

lemma parseParameterFile_key_only:
  "fst (parseParameterFile ''params.ini'' True [''foo''] (clear :: unit MetaData)) = Inl OutOfRange"
  by code_simp

section \<open>Line wrapping\<close>

text \<open>
  Claim C8 says that every newline of the input appears in the output with the text
  around it unaltered. After a newline the code sets \<open>lastBreakPos = startInPos + 1\<close>,
  one position too far: when the line behind the newline reaches the width without any
  blank, the code takes that position for a blank, breaks behind the first character of
  the line and drops the second. With width 3 and no indent, the text \<open>x\<close>, newline,
  \<open>abcdef\<close> comes out as \<open>x\<close>, newline, \<open>a\<close>, newline, \<open>cde\<close>, newline, \<open>f\<close>:
  the \<open>b\<close> is lost.
\<close>

theorem breakLines_drops_character:
  "breakLines [CHR ''x'', CHR 0x0A, CHR ''a'', CHR ''b'', CHR ''c'', CHR ''d'', CHR ''e'', CHR ''f''] 0 3
   = Inr [CHR ''x'', CHR 0x0A, CHR ''a'', CHR 0x0A, CHR ''c'', CHR ''d'', CHR ''e'', CHR 0x0A, CHR ''f'']"
  by code_simp

text \<open>A text without newlines is wrapped at its blanks, with the indent on the new lines.\<close>

lemma breakLines_example:
  "breakLines ''aaa bbb ccc ddd'' 2 7 = Inr (''aaa bbb'' @ [CHR 0x0A] @ ''  ccc'' @ [CHR 0x0A] @ ''  ddd'')"
  by code_simp

section \<open>Resolution of registered parameters\<close>

lemma Get_True_state: "snd (Get L p True st) = st"
  by (simp add: Get_def Let_def split: option.splits)

text \<open>
  Claim C1. Registration is closed and the parameter has the registry entry
  \<open>paramInfo\<close>. Then \<open>Get\<close> leaves the state as it is and returns: when the value
  store holds the canonical key, the stored text converted to the type of the parameter
  (or the failure of that conversion); when it does not, the default text of the entry
  read into that type, a string as it is, a boolean as true exactly for the text \<open>1\<close>,
  a number through \<open>from_chars\<close>. \<open>IsSet\<close> returns whether the value store holds the
  key.
\<close>

theorem Get_IsSet_registered:
  assumes "\<not> registrationOpen st" and "registry st (name p) = Some paramInfo"
  shows "Get L p True st =
           ((case tree st (name p) of
               Some s \<Rightarrow>
                 (case val p of
                    VString d \<Rightarrow> (case tree_string L s of Inl e \<Rightarrow> Inl e | Inr x \<Rightarrow> Inr (VString x))
                  | VBool d \<Rightarrow> (case tree_bool L s of Inl e \<Rightarrow> Inl e | Inr x \<Rightarrow> Inr (VBool x))
                  | VNum d \<Rightarrow> (case tree_num L s of Inl e \<Rightarrow> Inl e | Inr x \<Rightarrow> Inr (VNum x)))
             | None \<Rightarrow>
                 (case val p of
                    VString d \<Rightarrow> Inr (VString (defaultValue paramInfo))
                  | VBool d \<Rightarrow> Inr (VBool (defaultValue paramInfo = ''1''))
                  | VNum d \<Rightarrow> Inr (VNum (from_chars L (defaultValue paramInfo) d)))), st)
         \<and> IsSet p True st = (Inr (tree st (name p) \<noteq> None), st)"
  using assms
  by (simp add: Get_def IsSet_def treeGet_def hasKey_def Let_def split: option.splits pvalue.splits)

text \<open>
  Claim C1 on the example state: the title was given on the command line, the verbosity
  was not.
\<close>

theorem Get_IsSet_registered_witness:
  "\<not> registrationOpen exampleState
   \<and> registry exampleState (name paramTitle)
       = Some \<lparr>paramName = ''Title'', paramTypeName = ''std::string'', typeTagName = [],
               usageString = ''The title'', defaultValue = ''none'', isHidden = False\<rparr>
   \<and> fst (Get exampleLib paramTitle True exampleState) = Inr (VString ''abc'')
   \<and> fst (IsSet paramTitle True exampleState) = Inr True"
proof -
  have h1: "\<not> registrationOpen exampleState" by code_simp
  have h2: "registry exampleState (name paramTitle)
       = Some \<lparr>paramName = ''Title'', paramTypeName = ''std::string'', typeTagName = [],
               usageString = ''The title'', defaultValue = ''none'', isHidden = False\<rparr>"
    by code_simp
  have t: "tree exampleState (name paramTitle) = Some ''abc''" by code_simp
  have v: "val paramTitle = VString ''none''" by (simp add: paramTitle_def)
  from Get_IsSet_registered [OF h1 h2, of exampleLib] h1 h2 show ?thesis
    by (simp add: t v exampleLib_def)
qed

lemma Get_default_example:
  "fst (Get exampleLib paramVerbose True exampleState) = Inr (VBool False)
   \<and> fst (IsSet paramVerbose True exampleState) = Inr False"
  by code_simp

text \<open>
  The default text of an entry: \<open>Register\<close> writes the compiled-in default,
  \<open>SetDefault\<close> overwrites it; \<open>endRegistration\<close> always leaves registration closed.
\<close>

lemma Register_defaultValue:
  "registrationOpen st \<Longrightarrow> registry st (name p) = None
   \<Longrightarrow> registry (snd (Register L p usage st)) (name p)
       = Some \<lparr>paramName = name p, paramTypeName = className p, typeTagName = [],
               usageString = usage, defaultValue = putValue L (val p), isHidden = False\<rparr>"
  by (simp add: Register_def Let_def)

lemma SetDefault_defaultValue:
  "registry st (name p) = Some paramInfo
   \<Longrightarrow> SetDefault L p v st
       = (Inr (), st\<lparr>registry := (registry st)(name p \<mapsto> paramInfo\<lparr>defaultValue := putValue L v\<rparr>)\<rparr>)"
  by (simp add: SetDefault_def)

text \<open>
  Claim C9. \<open>Get\<close> with \<open>errorIfNotRegistered = false\<close> on a name without an entry
  leaves a state whose registry has the empty entry for that name, the default text of
  which is empty; for a string parameter without a supplied value the call returns the
  empty string, not the compiled-in default.
\<close>

theorem Get_unregistered_inserts:
  assumes "registry st (name p) = None"
  shows "snd (Get L p False st) = st\<lparr>registry := (registry st)(name p \<mapsto> emptyParamInfo)\<rparr>
         \<and> defaultValue emptyParamInfo = []
         \<and> (\<forall>d. val p = VString d \<longrightarrow> tree st (name p) = None
              \<longrightarrow> fst (Get L p False st) = Inr (VString []))"
  using assms
  by (simp add: Get_def treeGet_def emptyParamInfo_def Let_def)

text \<open>Claim C9 on the fresh state and the string parameter \<open>Title\<close>, default \<open>none\<close>.\<close>

theorem Get_unregistered_inserts_witness:
  "registry (clear :: unit MetaData) (name paramTitle) = None
   \<and> registry (snd (Get exampleLib paramTitle False clear)) ''Title'' = Some emptyParamInfo
   \<and> val paramTitle = VString ''none''
   \<and> fst (Get exampleLib paramTitle False clear) = Inr (VString [])"
proof -
  have h: "registry (clear :: unit MetaData) (name paramTitle) = None" by code_simp
  have t: "tree (clear :: unit MetaData) (name paramTitle) = None" by code_simp
  have v: "val paramTitle = VString ''none''" by code_simp
  have n: "name paramTitle = ''Title''" by code_simp
  from Get_unregistered_inserts [OF h, of exampleLib] h t v n show ?thesis
    by simp
qed

section \<open>Registration\<close>

lemma Register_success_entry:
  assumes "fst (Register L p usage st) = Inr ()"
  shows "registrationOpen (snd (Register L p usage st))
         \<and> (\<exists>e. registry (snd (Register L p usage st)) (name p) = Some e
                \<and> paramName e = name p \<and> paramTypeName e = className p
                \<and> typeTagName e = [] \<and> usageString e = usage)"
proof (cases "registrationOpen st")
  case False
  with assms show ?thesis by (simp add: Register_def)
next
  case True
  show ?thesis
  proof (cases "registry st (name p)")
    case None
    with True show ?thesis by (simp add: Register_def Let_def)
  next
    case (Some e)
    with True assms show ?thesis
      by (simp add: Register_def Let_def ParamInfo_eq_def split: if_splits)
  qed
qed

lemma Register_registered:
  assumes "registrationOpen st" and "registry st (name p) = Some e"
  shows "Register L p usage st =
           (if paramName e = name p \<and> paramTypeName e = className p
               \<and> typeTagName e = [] \<and> usageString e = usage
            then Inr ()
            else Inl (LogicError (''Parameter '' @ name p
                        @ '' registered twice with non-matching characteristics.'')),
            st\<lparr>finalizers := finalizers st @ [p]\<rparr>)"
  using assms by (auto simp add: Register_def Let_def ParamInfo_eq_def)

text \<open>
  Claim C3. A first registration succeeds, a second one is made for the same canonical
  name. The second call succeeds when type name and usage string are those of the first,
  and fails with the error of a conflicting registration when one of them differs; the
  registry is the same after either. (The type tag of an entry is never set by
  \<open>Register\<close> and is empty on both sides. The default text and the hidden flag are not
  compared.)
\<close>

theorem Register_twice:
  assumes "fst (Register L p1 usage1 st) = Inr ()" and "name p2 = name p1"
  shows "(if className p2 = className p1 \<and> usage2 = usage1
          then fst (Register L p2 usage2 (snd (Register L p1 usage1 st))) = Inr ()
          else fst (Register L p2 usage2 (snd (Register L p1 usage1 st)))
               = Inl (LogicError (''Parameter '' @ name p2
                        @ '' registered twice with non-matching characteristics.'')))
         \<and> registry (snd (Register L p2 usage2 (snd (Register L p1 usage1 st))))
           = registry (snd (Register L p1 usage1 st))"
proof -
  from Register_success_entry [OF assms(1)] obtain e where
    op: "registrationOpen (snd (Register L p1 usage1 st))"
    and e: "registry (snd (Register L p1 usage1 st)) (name p2) = Some e"
    and f: "paramName e = name p2" "paramTypeName e = className p1"
           "typeTagName e = []" "usageString e = usage1"
    using assms(2) by auto
  show ?thesis
    by (auto simp add: Register_registered [OF op e] f)
qed

text \<open>
  Claim C3 on the parameter \<open>Title\<close>: registered again as it is, and registered again
  with another type.
\<close>

theorem Register_twice_witness:
  "fst (Register exampleLib paramTitle ''The title'' clear) = Inr ()
   \<and> name paramTitleBool = name paramTitle
   \<and> fst (Register exampleLib paramTitle ''The title''
            (snd (Register exampleLib paramTitle ''The title'' clear))) = Inr ()
   \<and> fst (Register exampleLib paramTitleBool ''The title''
            (snd (Register exampleLib paramTitle ''The title'' clear)))
       = Inl (LogicError ''Parameter Title registered twice with non-matching characteristics.'')
   \<and> registry (snd (Register exampleLib paramTitleBool ''The title''
            (snd (Register exampleLib paramTitle ''The title'' clear))))
       = registry (snd (Register exampleLib paramTitle ''The title'' clear))"
proof -
  have h1: "fst (Register exampleLib paramTitle ''The title'' clear) = Inr ()" by code_simp
  have h2: "name paramTitleBool = name paramTitle" by code_simp
  have h3: "name paramTitle = name paramTitle" by simp
  have c: "className paramTitleBool \<noteq> className paramTitle" by code_simp
  have n: "name paramTitleBool = ''Title''" by code_simp
  from Register_twice [OF h1 h2, of "''The title''"] Register_twice [OF h1 h3, of "''The title''"]
    h1 h2 c n
  show ?thesis by simp
qed

text \<open>A second registration that differs in the compiled-in default alone succeeds.\<close>

lemma Register_ignores_default:
  "fst (Register exampleLib (paramTitle\<lparr>val := VString ''other''\<rparr>) ''The title''
          (snd (Register exampleLib paramTitle ''The title'' clear))) = Inr ()"
  by code_simp

text \<open>
  Claim C10. While registration is open, every call of \<open>Register\<close> leaves the list of
  finalizers one longer, with its parameter at the end, whatever the call returns: the
  finalizer is appended before the registry is looked at. (A call after registration is
  closed throws before that and leaves the list alone.)
\<close>

theorem Register_enqueues_first:
  "finalizers (snd (Register L p usage st))
   = (if registrationOpen st then finalizers st @ [p] else finalizers st)"
  by (simp add: Register_def Let_def split: option.splits)

text \<open>
  Claim C10 on the parameter \<open>Title\<close>: the second registration with another type fails
  and has added its finalizer; the second registration as it is succeeds and has added a
  second finalizer for the one entry.
\<close>

theorem Register_enqueues_first_witness:
  "registrationOpen (snd (Register exampleLib paramTitle ''The title'' clear))
   \<and> fst (Register exampleLib paramTitleBool ''The title''
            (snd (Register exampleLib paramTitle ''The title'' clear)))
       = Inl (LogicError ''Parameter Title registered twice with non-matching characteristics.'')
   \<and> finalizers (snd (Register exampleLib paramTitleBool ''The title''
            (snd (Register exampleLib paramTitle ''The title'' clear))))
       = [paramTitle, paramTitleBool]
   \<and> finalizers (snd (Register exampleLib paramTitle ''The title''
            (snd (Register exampleLib paramTitle ''The title'' clear))))
       = [paramTitle, paramTitle]"
proof -
  have o: "registrationOpen (snd (Register exampleLib paramTitle ''The title'' clear))"
    by code_simp
  have f: "finalizers (snd (Register exampleLib paramTitle ''The title'' clear)) = [paramTitle]"
    by code_simp
  have e: "fst (Register exampleLib paramTitleBool ''The title''
            (snd (Register exampleLib paramTitle ''The title'' clear)))
       = Inl (LogicError ''Parameter Title registered twice with non-matching characteristics.'')"
    by code_simp
  from Register_enqueues_first [of exampleLib paramTitleBool "''The title''"
         "snd (Register exampleLib paramTitle ''The title'' clear)"]
       Register_enqueues_first [of exampleLib paramTitle "''The title''"
         "snd (Register exampleLib paramTitle ''The title'' clear)"]
       o f e
  show ?thesis by simp
qed

section \<open>Closing registration\<close>

lemma runFinalizers_firstError:
  "runFinalizers L ps st =
     ((case firstError L ps st of Some e \<Rightarrow> Inl e | None \<Rightarrow> Inr ()), st)"
proof (induction ps)
  case Nil
  show ?case by simp
next
  case (Cons p ps)
  have s: "snd (Get L p True st) = st" by (rule Get_True_state)
  show ?case
  proof (cases "Get L p True st")
    case (Pair r st')
    with s have "st' = st" by simp
    with Pair Cons.IH show ?thesis by (simp split: sum.splits)
  qed
qed

lemma firstError_None_iff:
  "firstError L ps st = None \<longleftrightarrow> (\<forall>p\<in>set ps. \<exists>v. fst (Get L p True st) = Inr v)"
  by (induction ps) (auto split: sum.splits)

lemma firstError_Some:
  "firstError L ps st = Some e \<Longrightarrow>
   \<exists>qs p rs. ps = qs @ p # rs \<and> fst (Get L p True st) = Inl e
     \<and> (\<forall>q\<in>set qs. \<exists>v. fst (Get L q True st) = Inr v)"
proof (induction ps)
  case Nil
  then show ?case by simp
next
  case (Cons a ps)
  show ?case
  proof (cases "fst (Get L a True st)")
    case (Inl x)
    with Cons.prems have "x = e" by simp
    with Inl have "a # ps = [] @ a # ps \<and> fst (Get L a True st) = Inl e
      \<and> (\<forall>q\<in>set []. \<exists>v. fst (Get L q True st) = Inr v)" by simp
    then show ?thesis by blast
  next
    case (Inr v)
    with Cons.prems have "firstError L ps st = Some e" by simp
    from Cons.IH [OF this] obtain qs p rs where
      "ps = qs @ p # rs" "fst (Get L p True st) = Inl e"
      "\<forall>q\<in>set qs. \<exists>v. fst (Get L q True st) = Inr v" by blast
    with Inr have "a # ps = (a # qs) @ p # rs \<and> fst (Get L p True st) = Inl e
      \<and> (\<forall>q\<in>set (a # qs). \<exists>v. fst (Get L q True st) = Inr v)" by simp
    then show ?thesis by blast
  qed
qed

text \<open>
  Claim C6. \<open>endRegistration\<close> on a closed registry fails with the error of a second
  close and changes nothing. On an open registry it sets the flag to false and then
  retrieves every parameter of the finalizer list, in order, in the state with the flag
  already false: when every retrieval succeeds, the call succeeds and leaves that state
  with the list cleared; otherwise the call fails with the error of the first retrieval
  that fails, the flag false and the list as it was. Whatever the first call did, a
  second call on the state it leaves fails with the error of a second close.
\<close>

theorem endRegistration_once:
  "endRegistration L st =
     (if \<not> registrationOpen st
      then (Inl (LogicError ''Parameter registration was already closed. It is only possible to close it once.''), st)
      else (case firstError L (finalizers st) (st\<lparr>registrationOpen := False\<rparr>) of
              Some e \<Rightarrow> (Inl e, st\<lparr>registrationOpen := False\<rparr>)
            | None \<Rightarrow> (Inr (), st\<lparr>registrationOpen := False, finalizers := []\<rparr>)))
   \<and> fst (endRegistration L (snd (endRegistration L st)))
       = Inl (LogicError ''Parameter registration was already closed. It is only possible to close it once.'')"
proof -
  have first: "endRegistration L st =
     (if \<not> registrationOpen st
      then (Inl (LogicError ''Parameter registration was already closed. It is only possible to close it once.''), st)
      else (case firstError L (finalizers st) (st\<lparr>registrationOpen := False\<rparr>) of
              Some e \<Rightarrow> (Inl e, st\<lparr>registrationOpen := False\<rparr>)
            | None \<Rightarrow> (Inr (), st\<lparr>registrationOpen := False, finalizers := []\<rparr>)))" for st :: "'a MetaData"
    by (simp add: endRegistration_def Let_def runFinalizers_firstError split: option.splits)
  have closed: "\<not> registrationOpen (snd (endRegistration L st))"
    by (simp add: first split: option.splits)
  show ?thesis
    using first [of st] first [of "snd (endRegistration L st)"] closed by simp
qed

text \<open>Claim C6 on the state with the two example parameters registered.\<close>

theorem endRegistration_once_witness:
  "registrationOpen registeredState
   \<and> finalizers registeredState = [paramTitle, paramVerbose]
   \<and> firstError exampleLib (finalizers registeredState)
        (registeredState\<lparr>registrationOpen := False\<rparr>) = None
   \<and> endRegistration exampleLib registeredState
       = (Inr (), registeredState\<lparr>registrationOpen := False, finalizers := []\<rparr>)
   \<and> fst (endRegistration exampleLib (snd (endRegistration exampleLib registeredState)))
       = Inl (LogicError ''Parameter registration was already closed. It is only possible to close it once.'')"
proof -
  have o: "registrationOpen registeredState" by code_simp
  have f: "finalizers registeredState = [paramTitle, paramVerbose]" by code_simp
  have n: "firstError exampleLib (finalizers registeredState)
        (registeredState\<lparr>registrationOpen := False\<rparr>) = None" by code_simp
  note once = endRegistration_once [of exampleLib registeredState]
  from once o n have a: "endRegistration exampleLib registeredState
       = (Inr (), registeredState\<lparr>registrationOpen := False, finalizers := []\<rparr>)"
    by simp
  from once have b: "fst (endRegistration exampleLib (snd (endRegistration exampleLib registeredState)))
       = Inl (LogicError ''Parameter registration was already closed. It is only possible to close it once.'')"
    by (rule conjunct2)
  from o f n a b show ?thesis by (intro conjI)
qed

text \<open>
  A value that does not convert surfaces when registration is closed: with
  \<open>--verbose=maybe\<close> read before, \<open>endRegistration\<close> fails with the error of the
  lookup and leaves the finalizers in place.
\<close>

lemma endRegistration_surfaces_error:
  "fst (endRegistration exampleLib
          (snd (parseCommandLineOptions [''prog'', ''--verbose=maybe''] [] noPositionalParameters
                  registeredState)))
   = Inl (RangeError ''maybe'')
   \<and> finalizers (snd (endRegistration exampleLib
          (snd (parseCommandLineOptions [''prog'', ''--verbose=maybe''] [] noPositionalParameters
                  registeredState)))) = [paramTitle, paramVerbose]"
  by code_simp

section \<open>The command line\<close>

lemma parseCommandLineOptions_no_help:
  "helpPreamble = [] \<or> \<not> list_ex (\<lambda>a. a = ''-h'' \<or> a = ''--help'' \<or> a = ''--help-all'') (drop 1 argv)
   \<Longrightarrow> parseCommandLineOptions argv helpPreamble posArgCallback st
       = parseArgs posArgCallback argv 1 {} 0 st"
  by (auto simp add: parseCommandLineOptions_def)

lemma option_prefix_guard:
  assumes "4 \<le> length tok"
  shows "(charAt tok 0 \<noteq> CHR ''-'' \<or> charAt tok 1 \<noteq> CHR ''-'') \<longleftrightarrow> \<not> prefix ''--'' tok"
proof -
  from assms obtain a b rest where tok: "tok = a # b # rest"
    by (cases tok; cases "tl tok") auto
  show ?thesis by (auto simp add: tok charAt_def)
qed

lemma not_isalpha_NUL: "\<not> isalpha (CHR 0x00)"
  by (simp add: isalpha_def isupper_def islower_def)

lemma parseArgs_unfold:
  "i < length argv \<Longrightarrow>
   parseArgs posArgCallback argv i seenKeys numPositionalParams st =
     (case argStep posArgCallback argv i seenKeys numPositionalParams st of
        Return r st' \<Rightarrow> (r, st')
      | Continue i' seenKeys' numPositionalParams' st' \<Rightarrow>
          parseArgs posArgCallback argv i' seenKeys' numPositionalParams' st')"
  by (subst parseArgs.simps) simp

lemma argStep_guard:
  "argStep posArgCallback argv i seenKeys numPositionalParams st =
     (if length (argv ! i) < 4 \<or> \<not> prefix ''--'' (argv ! i)
      then positionalArg posArgCallback argv i seenKeys numPositionalParams st
      else namedArg argv i seenKeys numPositionalParams st)"
proof (cases "length (argv ! i) < 4")
  case True
  then show ?thesis by (simp add: argStep_def)
next
  case False
  then have "4 \<le> length (argv ! i)" by simp
  from option_prefix_guard [OF this] False show ?thesis
    by (simp add: argStep_def)
qed

lemma namedArg_steps:
  assumes "4 \<le> length (argv ! i)"
  shows "namedArg argv i seenKeys numPositionalParams st =
           (if \<not> isalpha (argv ! i ! 2) then
              Return (Inr (''Parameter name of argument '' @ to_string i @ '' ('' @ [CHR 0x27]
                      @ argv ! i @ [CHR 0x27] @ '') ''
                      @ ''is invalid because it does not start with a letter.'')) st
            else
              (case transformKey
                      (takeWhile (\<lambda>c. \<not> (isspace c \<or> c = CHR ''='')) (drop 2 (argv ! i)))
                      True [] of
                 Inl e \<Rightarrow> Return (Inl e) st
               | Inr key \<Rightarrow>
                   if key \<in> seenKeys then
                     Return (Inr (''Parameter '' @ [CHR 0x27] @ key @ [CHR 0x27]
                             @ '' specified multiple times as a command line parameter'')) st
                   else
                     (case dropWhile (\<lambda>c. \<not> (isspace c \<or> c = CHR ''='')) (drop 2 (argv ! i)) of
                        [] \<Rightarrow>
                          Return (Inr (''Parameter '' @ [CHR 0x27] @ key @ [CHR 0x27]
                                  @ '' is missing a value. '' @ '' Please use '' @ argv ! i
                                  @ ''=value.'')) st
                      | c # v \<Rightarrow>
                          if c \<noteq> CHR ''='' then
                            Return (Inr (''Parameter '' @ [CHR 0x27] @ key @ [CHR 0x27]
                                    @ '' is missing a value. '' @ '' Please use '' @ argv ! i
                                    @ ''=value.'')) st
                          else Continue (i + 1) (insert key seenKeys)
                                 numPositionalParams (st\<lparr>tree := (tree st)(key \<mapsto> v)\<rparr>))))"
proof -
  from assms have c2: "charAt (argv ! i) 2 = argv ! i ! 2" by (simp add: charAt_def)
  have c0: "charAt (c # v) 0 = c" "charAt [] 0 = CHR 0x00" for c v
    by (simp_all add: charAt_def)
  have nz: "isalpha (argv ! i ! 2) \<Longrightarrow> argv ! i ! 2 \<noteq> CHR 0x00"
    using not_isalpha_NUL by auto
  show ?thesis
  proof (cases "dropWhile (\<lambda>c. \<not> (isspace c \<or> c = CHR ''='')) (drop 2 (argv ! i))")
    case Nil
    then show ?thesis
      by (simp add: namedArg_def parseKey_def c2 c0 nz split: sum.splits
            del: dropWhile_eq_Nil_conv)
  next
    case (Cons c v)
    then show ?thesis
      by (simp add: namedArg_def parseKey_def c2 c0 nz substr_def split: sum.splits)
  qed
qed

text \<open>
  Claim C4, as stated: a token goes to the positional-argument handler exactly when it
  does not start with \<open>--\<close>, and every token that starts with \<open>--\<close> is read as a
  named option. The guard of the loop also sends every token of fewer than four
  characters to the handler. \<open>--x\<close> starts with \<open>--\<close>, and the answer to
  \<open>prog --x\<close> is the message of the default handler, \<open>Illegal parameter "--x".\<close>,
  not a message about the option \<open>X\<close>.
\<close>

theorem parseCommandLineOptions_short_option_counterexample:
  "prefix ''--'' ''--x''
   \<and> fst (parseCommandLineOptions [''prog'', ''--x''] [] noPositionalParameters (clear :: unit MetaData))
       = Inr (''Illegal parameter '' @ [CHR 0x22] @ ''--x'' @ [CHR 0x22] @ ''.'')"
  by code_simp

text \<open>
  Claim C4, amended. When the loop over the arguments arrives at a token, the token goes
  to the positional-argument handler exactly when it has fewer than four characters or
  does not start with \<open>--\<close>: the handler's assignments are stored, and the loop ends
  with the handler's message when it has handled nothing, or goes on behind the tokens it
  has handled. Every other token, one of at least four characters that starts with
  \<open>--\<close>, is read as a named option, in this order: the character behind \<open>--\<close> must
  be a letter, else the loop ends with a message; the text up to the first blank or
  \<open>=\<close> is transformed by \<open>transformKey\<close> with \<open>capitalizeFirst = true\<close>, whose
  error ends the loop; a name seen before ends the loop with a message; a name that is not
  followed by \<open>=\<close> ends the loop with a message; otherwise the text behind the \<open>=\<close>
  is stored under the name, the name is added to the names seen, and the loop goes on
  with the next token. Whenever the loop ends at a named option, the state is left as it
  was.
\<close>

theorem parseArgs_delegation:
  assumes "i < length argv"
  shows "parseArgs posArgCallback argv i seenKeys numPositionalParams st =
           (if length (argv ! i) < 4 \<or> \<not> prefix ''--'' (argv ! i) then
              (case posArgCallback seenKeys argv i numPositionalParams of
                 (numHandled, errorMsg, assignments, seenKeys1) \<Rightarrow>
                   if numHandled < 1
                   then (Inr errorMsg,
                         st\<lparr>tree := foldl (\<lambda>t (k, v). t(k \<mapsto> v)) (tree st) assignments\<rparr>)
                   else parseArgs posArgCallback argv (i + nat numHandled) seenKeys1
                          (numPositionalParams + 1)
                          (st\<lparr>tree := foldl (\<lambda>t (k, v). t(k \<mapsto> v)) (tree st) assignments\<rparr>))
            else if \<not> isalpha (argv ! i ! 2) then
              (Inr (''Parameter name of argument '' @ to_string i @ '' ('' @ [CHR 0x27]
                      @ argv ! i @ [CHR 0x27] @ '') ''
                      @ ''is invalid because it does not start with a letter.''), st)
            else
              (case transformKey
                      (takeWhile (\<lambda>c. \<not> (isspace c \<or> c = CHR ''='')) (drop 2 (argv ! i)))
                      True [] of
                 Inl e \<Rightarrow> (Inl e, st)
               | Inr key \<Rightarrow>
                   if key \<in> seenKeys then
                     (Inr (''Parameter '' @ [CHR 0x27] @ key @ [CHR 0x27]
                             @ '' specified multiple times as a command line parameter''), st)
                   else
                     (case dropWhile (\<lambda>c. \<not> (isspace c \<or> c = CHR ''='')) (drop 2 (argv ! i)) of
                        [] \<Rightarrow>
                          (Inr (''Parameter '' @ [CHR 0x27] @ key @ [CHR 0x27]
                                  @ '' is missing a value. '' @ '' Please use '' @ argv ! i
                                  @ ''=value.''), st)
                      | c # v \<Rightarrow>
                          if c \<noteq> CHR ''='' then
                            (Inr (''Parameter '' @ [CHR 0x27] @ key @ [CHR 0x27]
                                    @ '' is missing a value. '' @ '' Please use '' @ argv ! i
                                    @ ''=value.''), st)
                          else parseArgs posArgCallback argv (i + 1) (insert key seenKeys)
                                 numPositionalParams (st\<lparr>tree := (tree st)(key \<mapsto> v)\<rparr>))))"
proof (cases "length (argv ! i) < 4 \<or> \<not> prefix ''--'' (argv ! i)")
  case True
  then show ?thesis
    by (simp only: parseArgs_unfold [OF assms] argStep_guard if_True)
       (simp add: positionalArg_def split: prod.splits)
next
  case False
  then have len: "4 \<le> length (argv ! i)" by simp
  from False show ?thesis
    by (simp only: parseArgs_unfold [OF assms] argStep_guard if_False namedArg_steps [OF len])
       (simp split: sum.splits list.splits del: dropWhile_eq_Nil_conv)
qed

text \<open>
  Claim C4, amended, on one command line for each way through the step: an option that
  is stored, a name seen before, a name without a value, a name that does not start with
  a letter, a name that \<open>transformKey\<close> refuses, and a short token that goes to the
  handler.
\<close>

theorem parseArgs_delegation_witness:
  "fst (parseArgs noPositionalParameters [''prog'', ''--max-iter=10''] 1 {} 0
          (clear :: unit MetaData)) = Inr []
   \<and> tree (snd (parseArgs noPositionalParameters [''prog'', ''--max-iter=10''] 1 {} 0
          (clear :: unit MetaData))) ''MaxIter'' = Some ''10''
   \<and> fst (parseArgs noPositionalParameters [''prog'', ''--max-iter=20''] 1 {''MaxIter''} 0
          (clear :: unit MetaData))
       = Inr (''Parameter '' @ [CHR 0x27] @ ''MaxIter'' @ [CHR 0x27]
               @ '' specified multiple times as a command line parameter'')
   \<and> tree (snd (parseArgs noPositionalParameters [''prog'', ''--max-iter=20''] 1 {''MaxIter''} 0
          (clear :: unit MetaData))) ''MaxIter'' = None
   \<and> fst (parseArgs noPositionalParameters [''prog'', ''--max-iter''] 1 {} 0
          (clear :: unit MetaData))
       = Inr (''Parameter '' @ [CHR 0x27] @ ''MaxIter'' @ [CHR 0x27]
               @ '' is missing a value.  Please use --max-iter=value.'')
   \<and> fst (parseArgs noPositionalParameters [''prog'', ''--1abc=2''] 1 {} 0
          (clear :: unit MetaData))
       = Inr (''Parameter name of argument 1 ('' @ [CHR 0x27] @ ''--1abc=2'' @ [CHR 0x27]
               @ '') is invalid because it does not start with a letter.'')
   \<and> fst (parseArgs noPositionalParameters [''prog'', ''--a_b=1''] 1 {} 0
          (clear :: unit MetaData))
       = Inl (RuntimeError (''Invalid parameter name '' @ [CHR 0x27] @ ''a_b'' @ [CHR 0x27]))
   \<and> fst (parseArgs noPositionalParameters [''prog'', ''--x''] 1 {} 0
          (clear :: unit MetaData))
       = Inr (''Illegal parameter '' @ [CHR 0x22] @ ''--x'' @ [CHR 0x22] @ ''.'')"
proof -
  have stored: "fst (parseArgs noPositionalParameters [''prog'', ''--max-iter=10''] 1 {} 0
          (clear :: unit MetaData)) = Inr []"
    by (subst parseArgs_delegation; code_simp)
  have kept: "tree (snd (parseArgs noPositionalParameters [''prog'', ''--max-iter=10''] 1 {} 0
          (clear :: unit MetaData))) ''MaxIter'' = Some ''10''"
    by (subst parseArgs_delegation; code_simp)
  have duplicate: "fst (parseArgs noPositionalParameters [''prog'', ''--max-iter=20''] 1 {''MaxIter''} 0
          (clear :: unit MetaData))
       = Inr (''Parameter '' @ [CHR 0x27] @ ''MaxIter'' @ [CHR 0x27]
               @ '' specified multiple times as a command line parameter'')"
    by (subst parseArgs_delegation; code_simp)
  have untouched: "tree (snd (parseArgs noPositionalParameters [''prog'', ''--max-iter=20''] 1 {''MaxIter''} 0
          (clear :: unit MetaData))) ''MaxIter'' = None"
    by (subst parseArgs_delegation; code_simp)
  have missing: "fst (parseArgs noPositionalParameters [''prog'', ''--max-iter''] 1 {} 0
          (clear :: unit MetaData))
       = Inr (''Parameter '' @ [CHR 0x27] @ ''MaxIter'' @ [CHR 0x27]
               @ '' is missing a value.  Please use --max-iter=value.'')"
    by (subst parseArgs_delegation; code_simp)
  have letter: "fst (parseArgs noPositionalParameters [''prog'', ''--1abc=2''] 1 {} 0
          (clear :: unit MetaData))
       = Inr (''Parameter name of argument 1 ('' @ [CHR 0x27] @ ''--1abc=2'' @ [CHR 0x27]
               @ '') is invalid because it does not start with a letter.'')"
    by (subst parseArgs_delegation; code_simp)
  have invalid: "fst (parseArgs noPositionalParameters [''prog'', ''--a_b=1''] 1 {} 0
          (clear :: unit MetaData))
       = Inl (RuntimeError (''Invalid parameter name '' @ [CHR 0x27] @ ''a_b'' @ [CHR 0x27]))"
    by (subst parseArgs_delegation; code_simp)
  have short: "fst (parseArgs noPositionalParameters [''prog'', ''--x''] 1 {} 0
          (clear :: unit MetaData))
       = Inr (''Illegal parameter '' @ [CHR 0x22] @ ''--x'' @ [CHR 0x22] @ ''.'')"
    by (subst parseArgs_delegation; code_simp)
  from stored kept duplicate untouched missing letter invalid short show ?thesis
    by (intro conjI)
qed

text \<open>
  A name that \<open>transformKey\<close> returns with \<open>capitalizeFirst = true\<close> is a valid
  canonical name that starts with an upper-case letter: only such names are stored by a
  named option.
\<close>

lemma transformKeyRest_alnum:
  "transformKeyRest errorPrefix s cs = Inr r \<Longrightarrow> list_all isalnum r"
proof (induction errorPrefix s cs arbitrary: r rule: transformKeyRest.induct)
  case (1 errorPrefix s)
  then show ?case by simp
next
  case (2 errorPrefix s c cs)
  show ?case
  proof (cases "c = CHR ''-''")
    case True
    with "2.prems" obtain d ds r' where cs: "cs = d # ds" and d: "isalpha d"
      and r': "transformKeyRest errorPrefix s ds = Inr r'" and r: "r = toupper d # r'"
      by (auto split: list.splits if_splits sum.splits)
    from d have "isalnum (toupper d)"
      by (auto simp add: isalnum_def isalpha_def toupper_def isupper_def islower_def)
    with "2.IH"(1) [OF True cs _ r'] d r show ?thesis by simp
  next
    case False
    with "2.prems" obtain r' where c: "isalnum c"
      and r': "transformKeyRest errorPrefix s cs = Inr r'" and r: "r = c # r'"
      by (auto split: if_splits sum.splits)
    with "2.IH"(2) [OF False _ r'] show ?thesis by simp
  qed
qed

lemma transformKey_canonical:
  assumes "transformKey s True errorPrefix = Inr r"
  shows "validName r \<and> isupper (hd r)"
proof -
  from assms obtain c cs r' where s: "s = c # cs" and c: "isalpha c"
    and r': "transformKeyRest errorPrefix s cs = Inr r'" and r: "r = toupper c # r'"
    by (auto simp add: transformKey_def split: list.splits if_splits sum.splits)
  from c have "isupper (toupper c)"
    by (auto simp add: isalpha_def toupper_def isupper_def islower_def)
  with transformKeyRest_alnum [OF r'] r show ?thesis
    by (simp add: validName_def isalpha_def)
qed

text \<open>
  The option \<open>--\<close>, kebab-case form of a canonical name, \<open>=\<close>, value: a name seen
  before ends the loop with the message for a repeated name; otherwise the value, which
  is everything behind the first \<open>=\<close>, is stored under the canonical name.
\<close>

lemma isalnum_plain:
  "isalnum x \<Longrightarrow> \<not> isspace x \<and> x \<noteq> CHR ''=''"
  by (auto simp add: isalnum_def isalpha_def isupper_def islower_def isdigit_def isspace_def)

lemma isalnum_tolower: "isalnum c \<Longrightarrow> isalnum (tolower c)"
proof (cases "isupper c")
  case True
  from isalpha_tolower [OF this] show ?thesis by (simp add: isalnum_def)
next
  case False
  assume "isalnum c"
  with False show ?thesis by (simp add: tolower_id)
qed

lemma kebab_char_plain:
  "isalnum c \<Longrightarrow> \<not> isspace (tolower c) \<and> tolower c \<noteq> CHR ''=''"
  using isalnum_plain [OF isalnum_tolower] by simp

lemma hyphen_plain: "\<not> isspace (CHR ''-'')"
  by (simp add: isspace_def)

lemma cmdLineNameLoop_plain:
  "list_all isalnum cs \<Longrightarrow>
   \<forall>x\<in>set (cmdLineNameLoop cs). \<not> (isspace x \<or> x = CHR ''='')"
proof (induction cs)
  case Nil
  then show ?case by simp
next
  case (Cons c cs)
  then have "isalnum c" and ih: "\<forall>x\<in>set (cmdLineNameLoop cs). \<not> (isspace x \<or> x = CHR ''='')"
    by simp_all
  from kebab_char_plain [OF this(1)] ih hyphen_plain show ?case
    by simp
qed

lemma parseArgs_named_option:
  assumes i: "i < length argv"
    and tok: "argv ! i = ''--'' @ kebab_spec n @ CHR ''='' # v"
    and n: "validName n" "isupper (hd n)"
  shows "parseArgs posArgCallback argv i seenKeys numPositionalParams st =
           (if n \<in> seenKeys
            then (Inr (''Parameter '' @ [CHR 0x27] @ n @ [CHR 0x27]
                         @ '' specified multiple times as a command line parameter''), st)
            else parseArgs posArgCallback argv (i + 1) (insert n seenKeys) numPositionalParams
                   (st\<lparr>tree := (tree st)(n \<mapsto> v)\<rparr>))"
proof -
  from n obtain c cs where nc: "n = c # cs" and up: "isupper c" and rest: "list_all isalnum cs"
    by (cases n) (simp_all add: validName_def)
  have k: "kebab_spec n = tolower c # cmdLineNameLoop cs"
    by (simp add: nc kebab_spec_def)
  from up have calnum: "isalnum c" by (simp add: isalnum_def isalpha_def)
  have plain: "\<forall>x\<in>set (kebab_spec n). \<not> (isspace x \<or> x = CHR ''='')"
    using kebab_char_plain [OF calnum] cmdLineNameLoop_plain [OF rest] by (simp add: k)
  have len: "\<not> (length (argv ! i) < 4 \<or> \<not> prefix ''--'' (argv ! i))"
    by (simp add: tok k)
  have a2: "isalpha (argv ! i ! 2)"
    using isalpha_tolower [OF up] by (simp add: tok k)
  have d2: "drop 2 (argv ! i) = kebab_spec n @ CHR ''='' # v"
    by (simp add: tok)
  have tw: "takeWhile (\<lambda>c. \<not> (isspace c \<or> c = CHR ''='')) (drop 2 (argv ! i)) = kebab_spec n"
    unfolding d2 using plain by (subst takeWhile_append2) auto
  have dw: "dropWhile (\<lambda>c. \<not> (isspace c \<or> c = CHR ''='')) (drop 2 (argv ! i)) = CHR ''='' # v"
    unfolding d2 using plain by (subst dropWhile_append2) auto
  have tk: "transformKey (kebab_spec n) True [] = Inr n"
    using up rest
    by (simp add: nc kebab_spec_def transformKey_def transformKeyRest_cmdLineNameLoop
        isalpha_tolower toupper_tolower)
  from len have len4: "4 \<le> length (argv ! i)" by simp
  show ?thesis
    by (simp only: parseArgs_unfold [OF i] argStep_guard namedArg_steps [OF len4] len a2 tw dw tk
          if_False not_True_eq_False not_False_eq_True sum.case list.case simp_thms)
       simp
qed

end
